theory Spec2Isabelle
  imports Main "HOL-Library.Sublist"
begin

section \<open>JavaScript strings\<close>

text \<open>
  A JavaScript string is modelled as a \<^typ>\<open>string\<close>, the UTF-8 encoding of its text: one
  \<^typ>\<open>char\<close> per ASCII character, and the two to four bytes of its encoding for a
  character outside ASCII (a string with an unpaired surrogate has no such encoding and is
  outside the model). On such strings \<^verbatim>\<open>startsWith\<close> and \<^verbatim>\<open>includes\<close> are the prefix
  and the containment of byte lists, since the encoding of a text occurs in the encoding of
  another text only where a character of that text begins.
\<close>

text \<open>\<^verbatim>\<open>s.startsWith(p)\<close>.\<close>

definition startsWith :: "string \<Rightarrow> string \<Rightarrow> bool" where
  "startsWith s p = (take (length p) s = p)"

text \<open>\<^verbatim>\<open>s.includes(q)\<close>: \<open>q\<close> occurs in \<open>s\<close> at some offset; the empty string occurs
  in every string.\<close>

fun includes_str :: "string \<Rightarrow> string \<Rightarrow> bool" where
  "includes_str [] q = (q = [])"
| "includes_str (c # cs) q = (startsWith (c # cs) q \<or> includes_str cs q)"


text \<open>
  The characters that \<^verbatim>\<open>trim\<close> removes, each as its encoding: the white space and the
  line terminators of ECMAScript. These are the six characters of ASCII above, the
  no-break space U+00A0, the other space separators of Unicode (U+1680, U+2000 to U+200A,
  U+202F, U+205F, U+3000), the line and paragraph separators U+2028 and U+2029, and the
  byte order mark U+FEFF.
\<close>

definition white_space :: "string list" where
  "white_space =
     [[CHR 0x09], [CHR 0x0A], [CHR 0x0B], [CHR 0x0C], [CHR 0x0D], [CHR 0x20],
      [CHR 0xC2, CHR 0xA0],
      [CHR 0xE1, CHR 0x9A, CHR 0x80],
      [CHR 0xE2, CHR 0x80, CHR 0x80], [CHR 0xE2, CHR 0x80, CHR 0x81],
      [CHR 0xE2, CHR 0x80, CHR 0x82], [CHR 0xE2, CHR 0x80, CHR 0x83],
      [CHR 0xE2, CHR 0x80, CHR 0x84], [CHR 0xE2, CHR 0x80, CHR 0x85],
      [CHR 0xE2, CHR 0x80, CHR 0x86], [CHR 0xE2, CHR 0x80, CHR 0x87],
      [CHR 0xE2, CHR 0x80, CHR 0x88], [CHR 0xE2, CHR 0x80, CHR 0x89],
      [CHR 0xE2, CHR 0x80, CHR 0x8A],
      [CHR 0xE2, CHR 0x80, CHR 0xA8], [CHR 0xE2, CHR 0x80, CHR 0xA9],
      [CHR 0xE2, CHR 0x80, CHR 0xAF],
      [CHR 0xE2, CHR 0x81, CHR 0x9F],
      [CHR 0xE3, CHR 0x80, CHR 0x80],
      [CHR 0xEF, CHR 0xBB, CHR 0xBF]]"

text \<open>The string without the characters of \<open>ws\<close> that it begins with: as long as one of
  them is a prefix, it is dropped.\<close>

function strip_start :: "string list \<Rightarrow> string \<Rightarrow> string" where
  "strip_start ws s =
     (case find (\<lambda>w. w \<noteq> [] \<and> startsWith s w) ws of
        Some w \<Rightarrow> strip_start ws (drop (length w) s)
      | None \<Rightarrow> s)"
  by pat_completeness auto
termination
proof (relation "measure (\<lambda>(ws, s). length s)")
  show "wf (measure (\<lambda>(ws, s). length s))" by simp
next
  fix ws :: "string list" and s w :: string
  assume "find (\<lambda>w. w \<noteq> [] \<and> startsWith s w) ws = Some w"
  then have "w \<noteq> []" and "take (length w) s = w"
    unfolding find_Some_iff startsWith_def by auto
  then have "s \<noteq> []" by auto
  with \<open>w \<noteq> []\<close> show "((ws, drop (length w) s), (ws, s)) \<in> measure (\<lambda>(ws, s). length s)"
    by simp
qed

declare strip_start.simps [simp del]

text \<open>\<^verbatim>\<open>s.trim()\<close>: white space and line terminators removed at both ends. At the end
  of the string the encodings are read backwards.\<close>

definition trim :: "string \<Rightarrow> string" where
  "trim s = rev (strip_start (map rev white_space) (rev (strip_start white_space s)))"

text \<open>
  The case fold of ASCII: an upper-case letter \<open>A\<close>..\<open>Z\<close> gets bit 5 set, as in
  \<open>A\<close> = 0x41, \<open>a\<close> = 0x61, and every other byte stays. This is how the flag \<^verbatim>\<open>i\<close> of a
  regular expression compares the ASCII letters of a pattern with a text (no character
  outside ASCII matches an ASCII letter), and it is what \<^verbatim>\<open>toLowerCase\<close> does to a text
  that has no character outside ASCII.
\<close>

definition toLower :: "char \<Rightarrow> char" where
  "toLower c = (let n = (of_char c :: nat) in
     if 65 \<le> n \<and> n \<le> 90
     then (case c of Char b0 b1 b2 b3 b4 b5 b6 b7 \<Rightarrow> Char b0 b1 b2 b3 b4 True b6 b7)
     else c)"

definition ascii_lower :: "string \<Rightarrow> string" where
  "ascii_lower s = map toLower s"

text \<open>
  \<^verbatim>\<open>s.toLowerCase()\<close> itself is the case mapping of Unicode, which rests on the character
  tables of the platform and does not map a string character by character (a capital sigma
  at the end of a word becomes a final sigma). It is not defined here: a function that
  calls it takes it as the argument \<open>toLowerCase\<close>. \<open>ascii_exact\<close> is what is known of it on
  ASCII text.
\<close>

definition ascii_text :: "string \<Rightarrow> bool" where
  "ascii_text s = list_all (\<lambda>c. (of_char c :: nat) < 128) s"

definition ascii_exact :: "(string \<Rightarrow> string) \<Rightarrow> bool" where
  "ascii_exact toLowerCase = (\<forall>s. ascii_text s \<longrightarrow> toLowerCase s = ascii_lower s)"

section \<open>Errors\<close>

text \<open>
  Every failure of the source is a \<^verbatim>\<open>throw new Error(msg)\<close> or an exception of the
  runtime (a rejected \<^verbatim>\<open>fetch\<close>, a file that cannot be read); an error value carries
  its message. A function that can throw returns \<open>js_error + 'a\<close>, with \<open>Inl\<close> the
  exception.
\<close>

datatype js_error = Error (message: string)

text \<open>
  The three classes of fatal ingestion errors. The source has three \<^verbatim>\<open>throw\<close>
  statements in \<^verbatim>\<open>handleAddSource\<close>: \<^verbatim>\<open>'Invalid URL'\<close> and
  \<^verbatim>\<open>'Invalid YouTube URL'\<close> reject a malformed reference (\<open>InvalidInput\<close>), and
  \<^verbatim>\<open>'No content could be extracted.'\<close> is the final guard on the content
  (\<open>EmptyContent\<close>). No statement of the source throws an error of its own for an absent
  file, so no message is classified as \<open>MissingInput\<close>.
\<close>

datatype error_class = InvalidInput | MissingInput | EmptyContent

definition error_class_of :: "js_error \<Rightarrow> error_class option" where
  "error_class_of e =
     (if message e = ''Invalid URL'' \<or> message e = ''Invalid YouTube URL'' then Some InvalidInput
      else if message e = ''No content could be extracted.'' then Some EmptyContent
      else None)"

section \<open>Data model\<close>

text \<open>
  Modelled from the spec: the module \<^verbatim>\<open>../types\<close>, which declares \<^verbatim>\<open>Source\<close> and
  \<^verbatim>\<open>Notebook\<close>, is not among the sources. The records below have the fields of the
  specification's data model, which are the fields that the components read and write
  (and the \<^verbatim>\<open>id\<close> of a notebook, which the tabs read). The type tags are taken from the
  code: they are the six string literals that \<^verbatim>\<open>handleAddSource\<close> and the three file
  buttons assign (\<^verbatim>\<open>'copiedText'\<close>, \<^verbatim>\<open>'website'\<close>, \<^verbatim>\<open>'youtube'\<close>, \<^verbatim>\<open>'pdf'\<close>,
  \<^verbatim>\<open>'audio'\<close>, \<^verbatim>\<open>'image'\<close>; the last one is \<open>image_src\<close> here). \<open>type_name\<close> is
  the literal itself, the string that the running program stores in the field and that the
  source card prints.
\<close>

datatype source_type = copiedText | website | youtube | pdf | audio | image_src

fun type_name :: "source_type \<Rightarrow> string" where
  "type_name copiedText = ''copiedText''"
| "type_name website = ''website''"
| "type_name youtube = ''youtube''"
| "type_name pdf = ''pdf''"
| "type_name audio = ''audio''"
| "type_name image_src = ''image''"

text \<open>The three shapes of \<^verbatim>\<open>metadata\<close> that the source builds: \<^verbatim>\<open>{}\<close>,
  \<^verbatim>\<open>{ originalUrl }\<close> and \<^verbatim>\<open>{ filename, size }\<close>.\<close>

datatype metadata = NoMetadata | UrlMetadata string | FileMetadata string int

record source =
  id_src :: string
  type_src :: source_type
  title :: string
  content :: string
  createdAt :: int
  metadata :: metadata

record notebook =
  id_nb :: string
  title_nb :: string
  sources :: "source list"
  updatedAt :: int

section \<open>NotebookView: the notebook's update operations\<close>

text \<open>
  Each operation builds \<^verbatim>\<open>{ ...notebook, sources: ..., updatedAt: Date.now() }\<close> and hands it
  to \<^verbatim>\<open>onUpdate\<close>; the model returns that value. The clock reading \<^verbatim>\<open>Date.now()\<close> is
  the argument \<open>now\<close>.
\<close>

definition addSource :: "int \<Rightarrow> notebook \<Rightarrow> source \<Rightarrow> notebook" where
  "addSource now nb s = nb\<lparr>sources := sources nb @ [s], updatedAt := now\<rparr>"

definition deleteSource :: "int \<Rightarrow> notebook \<Rightarrow> string \<Rightarrow> notebook" where
  "deleteSource now nb i = nb\<lparr>sources := filter (\<lambda>s. id_src s \<noteq> i) (sources nb), updatedAt := now\<rparr>"

definition editSource :: "int \<Rightarrow> notebook \<Rightarrow> source \<Rightarrow> notebook" where
  "editSource now nb updatedSource =
     nb\<lparr>sources := map (\<lambda>s. if id_src s = id_src updatedSource then updatedSource else s) (sources nb),
        updatedAt := now\<rparr>"

text \<open>\<^verbatim>\<open>saveTitle\<close> renames the notebook: the edited title is trimmed first, and the trimmed
  title is what is tested and compared.\<close>

definition saveTitle :: "int \<Rightarrow> notebook \<Rightarrow> string \<Rightarrow> notebook" where
  "saveTitle now nb editedTitle =
     (let t = trim editedTitle in
      if t \<noteq> [] \<and> t \<noteq> title_nb nb then nb\<lparr>title_nb := t, updatedAt := now\<rparr> else nb)"

section \<open>SourcesTab: editing a title\<close>

text \<open>
  The edit button of a source card: \<^verbatim>\<open>prompt\<close> returns the entered string, or
  \<^verbatim>\<open>null\<close> (here \<open>None\<close>) when the dialog is cancelled. The handler calls
  \<^verbatim>\<open>onEditSource\<close> with the retitled source, or does nothing; \<open>editButton\<close> is the
  argument of that call, if any. The entered string is compared with the current title as
  it was typed; the stored title is the trimmed one.
\<close>

definition editButton :: "source \<Rightarrow> string option \<Rightarrow> source option" where
  "editButton src newTitle =
     (case newTitle of
        None \<Rightarrow> None
      | Some t \<Rightarrow>
          if t \<noteq> [] \<and> trim t \<noteq> [] \<and> t \<noteq> title src then Some (src\<lparr>title := trim t\<rparr>) else None)"

text \<open>The edit button wired to \<^verbatim>\<open>NotebookView.editSource\<close>, as \<^verbatim>\<open>NotebookView\<close> passes it
  to \<^verbatim>\<open>SourcesTab\<close>: the notebook after one click on the card of \<open>src\<close>.\<close>

definition editSourceTitle :: "int \<Rightarrow> notebook \<Rightarrow> source \<Rightarrow> string option \<Rightarrow> notebook" where
  "editSourceTitle now nb src newTitle =
     (case editButton src newTitle of None \<Rightarrow> nb | Some updated \<Rightarrow> editSource now nb updated)"

section \<open>SourcesTab: the search filter\<close>


section \<open>services/ai: the content fetcher and the file transcriber\<close>

text \<open>
  \<^verbatim>\<open>text.replace(re, r)\<close> with a global regular expression scans the text from left to
  right: at a position where the expression matches, the replacement is written and the
  scan goes on behind the match; elsewhere the character is copied. \<open>m\<close> gives the length
  of the match that starts at the head of its argument, if there is one; \<open>skip\<close> counts
  the characters of the current match that are still to be passed over.
\<close>

fun replace_from :: "(string \<Rightarrow> nat option) \<Rightarrow> string \<Rightarrow> nat \<Rightarrow> string \<Rightarrow> string" where
  "replace_from m r skip [] = []"
| "replace_from m r skip (c # cs) =
     (if 0 < skip then replace_from m r (skip - 1) cs
      else (case m (c # cs) of
              None \<Rightarrow> c # replace_from m r 0 cs
            | Some n \<Rightarrow> if 0 < n then r @ replace_from m r (n - 1) cs
                        else c # replace_from m r 0 cs))"

definition replace_all :: "(string \<Rightarrow> nat option) \<Rightarrow> string \<Rightarrow> string \<Rightarrow> string" where
  "replace_all m r s = replace_from m r 0 s"

text \<open>The offset of the first occurrence of the lower-case pattern \<open>p\<close> in \<open>s\<close>, letters
  compared without regard to case (the flag \<^verbatim>\<open>i\<close>).\<close>

fun find_ci :: "string \<Rightarrow> string \<Rightarrow> nat option" where
  "find_ci p [] = (if p = [] then Some 0 else None)"
| "find_ci p (c # cs) =
     (if ascii_lower (take (length p) (c # cs)) = p then Some 0
      else map_option Suc (find_ci p cs))"

text \<open>
  \<^verbatim>\<open>/<script[\s\S]*?<\/script>/gi\<close> and \<^verbatim>\<open>/<style[\s\S]*?<\/style>/gi\<close>: the opening
  \<^verbatim>\<open><tag\<close>, then as few characters as possible up to the first closing \<^verbatim>\<open></tag>\<close>.
\<close>

definition block_match :: "string \<Rightarrow> string \<Rightarrow> nat option" where
  "block_match tag s =
     (let opening = CHR ''<'' # tag; closing = ''</'' @ tag @ ''>'' in
      if ascii_lower (take (length opening) s) = opening
      then map_option (\<lambda>k. length opening + k + length closing)
             (find_ci closing (drop (length opening) s))
      else None)"

text \<open>\<^verbatim>\<open>/<[^>]+>/g\<close>: a \<^verbatim>\<open><\<close>, one or more characters other than \<^verbatim>\<open>>\<close>, and the
  \<^verbatim>\<open>>\<close> that ends them.\<close>

definition tag_match :: "string \<Rightarrow> nat option" where
  "tag_match s =
     (case s of
        [] \<Rightarrow> None
      | c # cs \<Rightarrow>
          (let inner = takeWhile (\<lambda>x. x \<noteq> CHR ''>'') cs in
           if c = CHR ''<'' \<and> inner \<noteq> [] \<and> length inner < length cs
           then Some (length inner + 2) else None))"

definition strip_markup :: "string \<Rightarrow> string" where
  "strip_markup text_html =
     replace_all tag_match '' ''
       (replace_all (block_match ''style'') []
          (replace_all (block_match ''script'') [] text_html))"

text \<open>
  \<^verbatim>\<open>fetchWebsiteContent\<close>. The network is the argument \<open>fetch_text\<close>: what
  \<^verbatim>\<open>(await fetch(url)).text()\<close> gives for a URL, the body of the response or the exception
  that \<^verbatim>\<open>fetch\<close> or \<^verbatim>\<open>res.text()\<close> throws. \<open>fetchWebsiteContent_try\<close> is the body of
  the \<^verbatim>\<open>try\<close> block, \<open>fetchWebsiteContent\<close> the function with its \<^verbatim>\<open>catch\<close>.
\<close>

definition fetchWebsiteContent_try :: "(string \<Rightarrow> js_error + string) \<Rightarrow> string \<Rightarrow> js_error + string" where
  "fetchWebsiteContent_try fetch_text url =
     (case fetch_text url of
        Inl err \<Rightarrow> Inl err
      | Inr text_html \<Rightarrow>
          (let plain = strip_markup text_html in
           Inr (if trim plain \<noteq> [] then trim plain else ''Retrieved content from '' @ url)))"

definition fetchWebsiteContent :: "(string \<Rightarrow> js_error + string) \<Rightarrow> string \<Rightarrow> string" where
  "fetchWebsiteContent fetch_text url =
     (case fetchWebsiteContent_try fetch_text url of
        Inr s \<Rightarrow> s
      | Inl err \<Rightarrow> ''Could not fetch content from '' @ url @ ''.'')"

text \<open>
  An uploaded \<^verbatim>\<open>File\<close>: its name, its declared MIME type (\<^verbatim>\<open>file.type\<close>), its size and
  what \<^verbatim>\<open>await file.text()\<close> gives, the decoded text or the exception of a failed read.
\<close>

record File =
  name :: string
  type_file :: string
  size_file :: int
  text_file :: "js_error + string"

text \<open>The hyphen of \<^verbatim>\<open>server-side\<close> in the stub sentence is the non-breaking hyphen
  U+2011, here its three UTF-8 bytes.\<close>

definition nb_hyphen :: string where
  "nb_hyphen = [CHR 0xE2, CHR 0x80, CHR 0x91]"

definition processFileWithGemini_try :: "File \<Rightarrow> string \<Rightarrow> js_error + string" where
  "processFileWithGemini_try file mimeType =
     (if startsWith mimeType ''text/''
      then (case text_file file of Inl err \<Rightarrow> Inl err | Inr t \<Rightarrow> Inr t)
      else Inr (''Uploaded file '' @ name file @ '' of type '' @ mimeType
                @ '' has been received. Text extraction requires server'' @ nb_hyphen
                @ ''side processing.''))"

definition processFileWithGemini :: "File \<Rightarrow> string \<Rightarrow> string" where
  "processFileWithGemini file mimeType =
     (case processFileWithGemini_try file mimeType of
        Inr s \<Rightarrow> s
      | Inl err \<Rightarrow> ''Could not process file '' @ name file @ ''.'')"

section \<open>SourcesTab: adding a source\<close>

text \<open>
  The state of the component that \<^verbatim>\<open>handleAddSource\<close> reads: the open dialog
  (\<^verbatim>\<open>null\<close> is \<open>None\<close>), the kind of file asked for, the two text inputs and the selected
  file.
\<close>

datatype modal = ModalText | ModalWebsite | ModalYoutube | ModalFile

datatype file_kind = FilePdf | FileAudio | FileImage

fun source_type_of :: "file_kind \<Rightarrow> source_type" where
  "source_type_of FilePdf = pdf"
| "source_type_of FileAudio = audio"
| "source_type_of FileImage = image_src"

record form =
  activeModal :: "modal option"
  fileType :: "file_kind option"
  inputValue :: string
  titleValue :: string
  selectedFile :: "File option"

text \<open>
  What the environment answers during one call: the network (\<open>fetch_text\<close> as above;
  \<open>oembed_title\<close> is the field \<^verbatim>\<open>title\<close> of the JSON document behind a URL, taken to be
  a string, \<open>None\<close> when the document has none, or the exception of the request or of the
  parser), the clock
  (\<^verbatim>\<open>new Date().toLocaleTimeString()\<close> and \<^verbatim>\<open>Date.now()\<close>) and
  \<^verbatim>\<open>crypto.randomUUID()\<close>.
\<close>

record env =
  fetch_text :: "string \<Rightarrow> js_error + string"
  oembed_title :: "string \<Rightarrow> js_error + string option"
  toLocaleTimeString :: string
  randomUUID :: string
  now :: int

text \<open>The four local variables \<^verbatim>\<open>content\<close>, \<^verbatim>\<open>finalTitle\<close>, \<^verbatim>\<open>type\<close> and
  \<^verbatim>\<open>metadata\<close>.\<close>

record draft =
  d_content :: string
  d_finalTitle :: string
  d_type :: source_type
  d_metadata :: metadata

text \<open>The title that the lookup at noembed.com leaves in \<^verbatim>\<open>finalTitle\<close>: a truthy
  \<^verbatim>\<open>json.title\<close> replaces it, and an exception is caught and ignored.\<close>

definition oembed_lookup :: "env \<Rightarrow> string \<Rightarrow> string \<Rightarrow> string" where
  "oembed_lookup w url finalTitle =
     (case oembed_title w (''https://noembed.com/embed?url='' @ url) of
        Inr (Some t) \<Rightarrow> if t \<noteq> [] then t else finalTitle
      | Inr None \<Rightarrow> finalTitle
      | Inl err \<Rightarrow> finalTitle)"

definition youtube_content :: "string \<Rightarrow> string \<Rightarrow> string" where
  "youtube_content url finalTitle =
     ''[YouTube Video Source]'' @ [CHR 0x0A] @ ''URL: '' @ url @ [CHR 0x0A] @ ''Title: '' @ finalTitle
     @ [CHR 0x0A, CHR 0x0A]
     @ ''(Note: Video transcript ingestion requires backend API. Treat this source as context for the video''
     @ [CHR 0x27] @ ''s existence.)''"

text \<open>
  The chain of \<^verbatim>\<open>if\<close> / \<^verbatim>\<open>else if\<close> on the open dialog: the values of the four variables
  behind it, or the error thrown inside it. Where no branch is taken the variables keep
  their initial values, \<^verbatim>\<open>content = ''\<close> among them.
\<close>

definition dispatch :: "env \<Rightarrow> form \<Rightarrow> js_error + draft" where
  "dispatch w f =
     (let init = \<lparr>d_content = [], d_finalTitle = titleValue f, d_type = copiedText,
                  d_metadata = NoMetadata\<rparr>
      in
      if activeModal f = Some ModalText then
        Inr (init\<lparr>d_content := inputValue f,
                  d_type := copiedText,
                  d_finalTitle := (if titleValue f = [] then ''Pasted Text '' @ toLocaleTimeString w
                                   else titleValue f)\<rparr>)
      else if activeModal f = Some ModalWebsite then
        (if \<not> startsWith (inputValue f) ''http'' then Inl (Error ''Invalid URL'')
         else Inr (init\<lparr>d_content := fetchWebsiteContent (fetch_text w) (inputValue f),
                        d_type := website,
                        d_finalTitle := (if titleValue f = [] then inputValue f else titleValue f),
                        d_metadata := UrlMetadata (inputValue f)\<rparr>))
      else if activeModal f = Some ModalYoutube then
        (if \<not> includes_str (inputValue f) ''youtube.com'' \<and> \<not> includes_str (inputValue f) ''youtu.be''
         then Inl (Error ''Invalid YouTube URL'')
         else (let t1 = oembed_lookup w (inputValue f) (titleValue f);
                   t2 = (if t1 = [] then ''YouTube Video'' else t1)
               in Inr (init\<lparr>d_finalTitle := t2,
                              d_content := youtube_content (inputValue f) t2,
                              d_type := youtube,
                              d_metadata := UrlMetadata (inputValue f)\<rparr>)))
      else
        (case (activeModal f, selectedFile f, fileType f) of
           (Some ModalFile, Some file, Some kind) \<Rightarrow>
             Inr (init\<lparr>d_finalTitle := (if titleValue f = [] then name file else titleValue f),
                       d_content := processFileWithGemini file (type_file file),
                       d_type := source_type_of kind,
                       d_metadata := FileMetadata (name file) (size_file file)\<rparr>)
         | _ \<Rightarrow> Inr init))"

text \<open>
  \<^verbatim>\<open>handleAddSource\<close>: the \<^verbatim>\<open>try\<close> block. \<open>Inr\<close> is the source handed to
  \<^verbatim>\<open>onAddSource\<close>; \<open>Inl\<close> is the error that the \<^verbatim>\<open>catch\<close> shows in the dialog, in
  which case \<^verbatim>\<open>onAddSource\<close> is not called. \<^verbatim>\<open>!content\<close> holds of the empty string
  only.
\<close>

definition handleAddSource :: "env \<Rightarrow> form \<Rightarrow> js_error + source" where
  "handleAddSource w f =
     (case dispatch w f of
        Inl err \<Rightarrow> Inl err
      | Inr d \<Rightarrow>
          if d_content d = [] then Inl (Error ''No content could be extracted.'')
          else Inr \<lparr>id_src = randomUUID w, type_src = d_type d, title = d_finalTitle d,
                    content = d_content d, createdAt = now w, metadata = d_metadata d\<rparr>)"

text \<open>
  \<^verbatim>\<open>handleAddSource\<close> wired to \<^verbatim>\<open>NotebookView.addSource\<close>, which \<^verbatim>\<open>NotebookView\<close>
  passes to \<^verbatim>\<open>SourcesTab\<close> as \<^verbatim>\<open>onAddSource\<close>: the notebook after one click on
  \<^verbatim>\<open>Add Source\<close>. \<open>t\<close> is the clock when \<^verbatim>\<open>addSource\<close> reads it.
\<close>

definition add_to_notebook :: "env \<Rightarrow> form \<Rightarrow> int \<Rightarrow> notebook \<Rightarrow> notebook" where
  "add_to_notebook w f t nb =
     (case handleAddSource w f of Inl err \<Rightarrow> nb | Inr newSource \<Rightarrow> addSource t nb newSource)"

text \<open>The class of the error of a failed call; \<open>None\<close> for a call that returns a source.\<close>

definition failure_class :: "js_error + source \<Rightarrow> error_class option" where
  "failure_class r = (case r of Inl err \<Rightarrow> error_class_of err | Inr s \<Rightarrow> None)"

text \<open>The type tag of the source that a call returns, as the string stored in the field;
  \<open>None\<close> for a failed call.\<close>

definition produced_type :: "js_error + source \<Rightarrow> string option" where
  "produced_type r = (case r of Inl err \<Rightarrow> None | Inr s \<Rightarrow> Some (type_name (type_src s)))"

section \<open>The search filter as specified\<close>



section \<open>Example values\<close>

text \<open>An environment without network: every fetch fails and no title is found.\<close>

definition example_env :: env where
  "example_env = \<lparr>fetch_text = (\<lambda>url. Inl (Error ''Failed to fetch'')),
                   oembed_title = (\<lambda>url. Inr None),
                   toLocaleTimeString = ''10:15:00 AM'', randomUUID = ''uuid-1'', now = 1000\<rparr>"

definition text_form :: "string \<Rightarrow> form" where
  "text_form input = \<lparr>activeModal = Some ModalText, fileType = None, inputValue = input,
                       titleValue = [], selectedFile = None\<rparr>"

definition url_form :: "modal \<Rightarrow> string \<Rightarrow> form" where
  "url_form m input = \<lparr>activeModal = Some m, fileType = None, inputValue = input,
                       titleValue = [], selectedFile = None\<rparr>"

definition file_form :: "file_kind \<Rightarrow> File option \<Rightarrow> form" where
  "file_form k file = \<lparr>activeModal = Some ModalFile, fileType = Some k, inputValue = [],
                       titleValue = [], selectedFile = file\<rparr>"

definition cats :: source where
  "cats = \<lparr>id_src = ''s1'', type_src = copiedText, title = ''Cats'', content = ''x'',
            createdAt = 1, metadata = NoMetadata\<rparr>"

definition dogs :: source where
  "dogs = \<lparr>id_src = ''s2'', type_src = copiedText, title = ''Dogs'', content = ''cats are great'',
            createdAt = 2, metadata = NoMetadata\<rparr>"

definition birds :: source where
  "birds = \<lparr>id_src = ''s3'', type_src = website, title = ''Birds'', content = ''tweet'',
            createdAt = 3, metadata = UrlMetadata ''http://birds.example''\<rparr>"

definition example_notebook :: notebook where
  "example_notebook = \<lparr>id_nb = ''n1'', title_nb = ''Pets'', sources = [cats, dogs, birds],
                        updatedAt = 5\<rparr>"

definition cats_notebook :: notebook where
  "cats_notebook = \<lparr>id_nb = ''n2'', title_nb = ''Cats'', sources = [cats, dogs], updatedAt = 5\<rparr>"

definition hello_txt :: File where
  "hello_txt = \<lparr>name = ''hello.txt'', type_file = ''text/plain'', size_file = 5,
                 text_file = Inr ''hello''\<rparr>"

definition empty_txt :: File where
  "empty_txt = \<lparr>name = ''empty.txt'', type_file = ''text/plain'', size_file = 0,
                 text_file = Inr []\<rparr>"

text \<open>A picture; reading it as text fails.\<close>

definition photo_png :: File where
  "photo_png = \<lparr>name = ''photo.png'', type_file = ''image/png'', size_file = 2048,
                 text_file = Inl (Error ''NotReadableError'')\<rparr>"








definition no_break_space :: string where
  "no_break_space = [CHR 0xC2, CHR 0xA0]"





section \<open>Facts about the string functions\<close>

lemma startsWith_iff: "startsWith s p \<longleftrightarrow> (\<exists>ss. s = p @ ss)"
  unfolding startsWith_def by (metis append_eq_conv_conj append_take_drop_id)

lemma includes_str_iff: "includes_str s q \<longleftrightarrow> (\<exists>ps ss. s = ps @ q @ ss)"
proof (induction s)
  case Nil
  show ?case by simp
next
  case (Cons c cs)
  have "(\<exists>ps ss. c # cs = ps @ q @ ss) \<longleftrightarrow>
        (\<exists>ss. c # cs = q @ ss) \<or> (\<exists>ps ss. cs = ps @ q @ ss)"
    by (auto simp: Cons_eq_append_conv) 
  with Cons show ?case by (simp add: startsWith_iff)
qed

lemma includes_str_middle: "includes_str (a @ q @ b) q"
  unfolding includes_str_iff by blast










lemma ascii_exact_ascii_lower: "ascii_exact ascii_lower"
  unfolding ascii_exact_def by simp


section \<open>Facts about the ingestion\<close>


lemma handleAddSource_content: "handleAddSource w f = Inr s \<Longrightarrow> content s \<noteq> []"
  unfolding handleAddSource_def by (auto split: sum.splits if_splits)

section \<open>The claims\<close>

text \<open>
  C1. Whatever the request, when the content extracted by the dispatch is the empty string,
  \<^verbatim>\<open>handleAddSource\<close> fails with the error of its final guard (\<open>EmptyContent\<close>) and the
  notebook stays as it is; a source that it returns has a content of positive length; so a
  notebook whose sources all have content still has only such sources after a click on
  \<^verbatim>\<open>Add Source\<close>.
\<close>

theorem empty_content_rejected:
  "(dispatch w f = Inr d \<and> d_content d = [] \<longrightarrow>
      handleAddSource w f = Inl (Error ''No content could be extracted.'')
      \<and> failure_class (handleAddSource w f) = Some EmptyContent
      \<and> add_to_notebook w f t nb = nb)
   \<and> (handleAddSource w f = Inr s \<longrightarrow> 0 < length (content s))
   \<and> (list_all (\<lambda>x. 0 < length (content x)) (sources nb) \<longrightarrow>
        list_all (\<lambda>x. 0 < length (content x)) (sources (add_to_notebook w f t nb)))"
proof (intro conjI impI)
  assume a: "dispatch w f = Inr d \<and> d_content d = []"
  then show e: "handleAddSource w f = Inl (Error ''No content could be extracted.'')"
    by (simp add: handleAddSource_def)
  then show "failure_class (handleAddSource w f) = Some EmptyContent"
    by (simp add: failure_class_def error_class_of_def)
  from e show "add_to_notebook w f t nb = nb"
    by (simp add: add_to_notebook_def)
next
  assume "handleAddSource w f = Inr s"
  then show "0 < length (content s)"
    using handleAddSource_content by blast
next
  assume inv: "list_all (\<lambda>x. 0 < length (content x)) (sources nb)"
  show "list_all (\<lambda>x. 0 < length (content x)) (sources (add_to_notebook w f t nb))"
  proof (cases "handleAddSource w f")
    case (Inl e)
    with inv show ?thesis by (simp add: add_to_notebook_def)
  next
    case (Inr s)
    then have "content s \<noteq> []" by (rule handleAddSource_content)
    with inv Inr show ?thesis by (simp add: add_to_notebook_def addSource_def)
  qed
qed

theorem empty_content_rejected_witness:
  "dispatch example_env (text_form []) =
     Inr \<lparr>d_content = [], d_finalTitle = ''Pasted Text 10:15:00 AM'', d_type = copiedText,
          d_metadata = NoMetadata\<rparr>
   \<and> handleAddSource example_env (text_form []) = Inl (Error ''No content could be extracted.'')
   \<and> add_to_notebook example_env (text_form []) 9 example_notebook = example_notebook
   \<and> handleAddSource example_env (text_form ''hello'') =
       Inr \<lparr>id_src = ''uuid-1'', type_src = copiedText, title = ''Pasted Text 10:15:00 AM'',
            content = ''hello'', createdAt = 1000, metadata = NoMetadata\<rparr>
   \<and> list_all (\<lambda>x. 0 < length (content x)) (sources example_notebook)
   \<and> list_all (\<lambda>x. 0 < length (content x))
        (sources (add_to_notebook example_env (text_form ''hello'') 9 example_notebook))
   \<and> dispatch example_env (file_form FilePdf (Some empty_txt)) =
       Inr \<lparr>d_content = [], d_finalTitle = ''empty.txt'', d_type = pdf,
            d_metadata = FileMetadata ''empty.txt'' 0\<rparr>
   \<and> handleAddSource example_env (file_form FilePdf (Some empty_txt)) =
       Inl (Error ''No content could be extracted.'')
   \<and> add_to_notebook example_env (file_form FilePdf (Some empty_txt)) 9 example_notebook =
       example_notebook"
  using empty_content_rejected [of example_env "text_form []"
          "\<lparr>d_content = [], d_finalTitle = ''Pasted Text 10:15:00 AM'', d_type = copiedText,
            d_metadata = NoMetadata\<rparr>" 9 example_notebook]
        empty_content_rejected [of example_env "text_form ''hello''" _ 9 example_notebook
          "\<lparr>id_src = ''uuid-1'', type_src = copiedText, title = ''Pasted Text 10:15:00 AM'',
            content = ''hello'', createdAt = 1000, metadata = NoMetadata\<rparr>"]
        empty_content_rejected [of example_env "file_form FilePdf (Some empty_txt)"
          "\<lparr>d_content = [], d_finalTitle = ''empty.txt'', d_type = pdf,
            d_metadata = FileMetadata ''empty.txt'' 0\<rparr>" 9 example_notebook]
  by (simp add: dispatch_def handleAddSource_def example_env_def text_form_def file_form_def
        empty_txt_def processFileWithGemini_def processFileWithGemini_try_def startsWith_def
        example_notebook_def cats_def dogs_def birds_def)

text \<open>
  C2, as the code has it. A request for a file (pdf, audio or image) with no file selected
  takes no branch of the dispatch, so the content is still empty at the final guard: the
  call fails with the error of that guard, \<^verbatim>\<open>'No content could be extracted.'\<close>, the very
  error of an empty pasted text, and the notebook stays as it is.
\<close>

theorem missing_file_rejected:
  "activeModal f = Some ModalFile \<and> fileType f = Some kind \<and> selectedFile f = None \<longrightarrow>
     handleAddSource w f = Inl (Error ''No content could be extracted.'')
     \<and> failure_class (handleAddSource w f) = Some EmptyContent
     \<and> handleAddSource w f = handleAddSource w (text_form [])
     \<and> add_to_notebook w f t nb = nb"
  by (simp add: handleAddSource_def dispatch_def failure_class_def error_class_of_def
        add_to_notebook_def text_form_def)

theorem missing_file_rejected_witness:
  "activeModal (file_form FileAudio None) = Some ModalFile
   \<and> fileType (file_form FileAudio None) = Some FileAudio
   \<and> selectedFile (file_form FileAudio None) = None
   \<and> handleAddSource example_env (file_form FileAudio None) =
       Inl (Error ''No content could be extracted.'')
   \<and> add_to_notebook example_env (file_form FileAudio None) 9 example_notebook = example_notebook
   \<and> handleAddSource example_env ((file_form FileImage None)\<lparr>inputValue := ''left over''\<rparr>) =
       Inl (Error ''No content could be extracted.'')"
  using missing_file_rejected [of "file_form FileAudio None" FileAudio example_env 9 example_notebook]
        missing_file_rejected [of "(file_form FileImage None)\<lparr>inputValue := ''left over''\<rparr>"
          FileImage example_env 9 example_notebook]
  by (simp add: file_form_def)

text \<open>The error of a pdf request without a file is the \<open>EmptyContent\<close> error of the final
  guard, not an error of a class of its own; so it is with text left in the input field,
  where the button \<^verbatim>\<open>Add Source\<close> is enabled.\<close>

theorem missing_file_counterexample:
  "handleAddSource example_env (file_form FilePdf None) = Inl (Error ''No content could be extracted.'')
   \<and> failure_class (handleAddSource example_env (file_form FilePdf None)) = Some EmptyContent
   \<and> failure_class (handleAddSource example_env (file_form FilePdf None)) \<noteq> Some MissingInput
   \<and> handleAddSource example_env ((file_form FilePdf None)\<lparr>inputValue := ''left over''\<rparr>) =
       Inl (Error ''No content could be extracted.'')
   \<and> failure_class
        (handleAddSource example_env ((file_form FilePdf None)\<lparr>inputValue := ''left over''\<rparr>))
       \<noteq> Some MissingInput"
  by (simp add: handleAddSource_def dispatch_def file_form_def failure_class_def error_class_of_def)

text \<open>
  C3. The entered title \<^verbatim>\<open>'Cats '\<close> for the source titled \<^verbatim>\<open>'Cats'\<close>: after trimming
  it equals the current title, yet the handler compares the untrimmed string, calls
  \<^verbatim>\<open>onEditSource\<close> with an unchanged source, and \<^verbatim>\<open>editSource\<close> moves
  \<^verbatim>\<open>updatedAt\<close> from 5 to 9 while no title changes. \<^verbatim>\<open>saveTitle\<close>, which trims before
  it compares, leaves a notebook titled \<^verbatim>\<open>'Cats'\<close> as it is on the same input.
\<close>

theorem edit_title_trailing_space:
  "trim ''Cats '' = title cats
   \<and> editButton cats (Some ''Cats '') = Some cats
   \<and> sources (editSourceTitle 9 example_notebook cats (Some ''Cats '')) = sources example_notebook
   \<and> updatedAt example_notebook = 5
   \<and> updatedAt (editSourceTitle 9 example_notebook cats (Some ''Cats '')) = 9
   \<and> saveTitle 9 cats_notebook ''Cats '' = cats_notebook"
  by (simp add: editSourceTitle_def editButton_def editSource_def saveTitle_def Let_def
        trim_def strip_start.simps white_space_def startsWith_def
        example_notebook_def cats_notebook_def cats_def dogs_def birds_def)

text \<open>What does hold of the edit button: a cancelled dialog, a blank title and a title that
  is character for character the current one change nothing, \<^verbatim>\<open>updatedAt\<close> included.\<close>

lemma edit_title_blank_or_same:
  "newTitle = None \<or> newTitle = Some title' \<and> (trim title' = [] \<or> title' = title src) \<Longrightarrow>
   editSourceTitle t nb src newTitle = nb"
  by (auto simp: editSourceTitle_def editButton_def)

text \<open>
  C4, as the code has it. The type tag of every source that \<^verbatim>\<open>handleAddSource\<close> returns
  is one of the six strings \<^verbatim>\<open>copiedText\<close>, \<^verbatim>\<open>website\<close>, \<^verbatim>\<open>youtube\<close>, \<^verbatim>\<open>pdf\<close>,
  \<^verbatim>\<open>audio\<close>, \<^verbatim>\<open>image\<close>. The tag follows the open dialog: pasted text gives
  \<^verbatim>\<open>copiedText\<close>, a website \<^verbatim>\<open>website\<close>, a video \<^verbatim>\<open>youtube\<close>, and a file the kind
  of file that was asked for.
\<close>

theorem source_type_closed:
  "handleAddSource w f = Inr s \<longrightarrow>
     type_name (type_src s) \<in> set [''copiedText'', ''website'', ''youtube'', ''pdf'', ''audio'', ''image'']
     \<and> (activeModal f = Some ModalText \<longrightarrow> type_name (type_src s) = ''copiedText'')
     \<and> (activeModal f = Some ModalWebsite \<longrightarrow> type_name (type_src s) = ''website'')
     \<and> (activeModal f = Some ModalYoutube \<longrightarrow> type_name (type_src s) = ''youtube'')
     \<and> (activeModal f = Some ModalFile \<longrightarrow>
          (\<exists>kind. fileType f = Some kind \<and> type_src s = source_type_of kind))"
proof
  assume a: "handleAddSource w f = Inr s"
  have 1: "type_name (type_src s) \<in> set [''copiedText'', ''website'', ''youtube'', ''pdf'', ''audio'', ''image'']"
    by (cases "type_src s") simp_all
  have 2: "activeModal f = Some ModalText \<longrightarrow> type_name (type_src s) = ''copiedText''"
    using a unfolding handleAddSource_def dispatch_def
    by (auto simp: Let_def split: if_splits)
  have 3: "activeModal f = Some ModalWebsite \<longrightarrow> type_name (type_src s) = ''website''"
    using a unfolding handleAddSource_def dispatch_def
    by (auto simp: Let_def split: if_splits)
  have 4: "activeModal f = Some ModalYoutube \<longrightarrow> type_name (type_src s) = ''youtube''"
    using a unfolding handleAddSource_def dispatch_def
    by (auto simp: Let_def split: if_splits)
  have 5: "activeModal f = Some ModalFile \<longrightarrow>
          (\<exists>kind. fileType f = Some kind \<and> type_src s = source_type_of kind)"
    using a unfolding handleAddSource_def dispatch_def
    by (auto simp: Let_def split: if_splits option.splits)
  from 1 2 3 4 5 show "type_name (type_src s) \<in> set [''copiedText'', ''website'', ''youtube'', ''pdf'', ''audio'', ''image'']
     \<and> (activeModal f = Some ModalText \<longrightarrow> type_name (type_src s) = ''copiedText'')
     \<and> (activeModal f = Some ModalWebsite \<longrightarrow> type_name (type_src s) = ''website'')
     \<and> (activeModal f = Some ModalYoutube \<longrightarrow> type_name (type_src s) = ''youtube'')
     \<and> (activeModal f = Some ModalFile \<longrightarrow>
          (\<exists>kind. fileType f = Some kind \<and> type_src s = source_type_of kind))" by blast
qed

theorem source_type_closed_witness:
  "handleAddSource example_env (text_form ''hello'') =
       Inr \<lparr>id_src = ''uuid-1'', type_src = copiedText, title = ''Pasted Text 10:15:00 AM'',
            content = ''hello'', createdAt = 1000, metadata = NoMetadata\<rparr>
   \<and> activeModal (text_form ''hello'') = Some ModalText
   \<and> type_name copiedText = ''copiedText''
   \<and> handleAddSource example_env (file_form FilePdf (Some hello_txt)) =
       Inr \<lparr>id_src = ''uuid-1'', type_src = pdf, title = ''hello.txt'',
            content = ''hello'', createdAt = 1000, metadata = FileMetadata ''hello.txt'' 5\<rparr>
   \<and> activeModal (file_form FilePdf (Some hello_txt)) = Some ModalFile
   \<and> fileType (file_form FilePdf (Some hello_txt)) = Some FilePdf
   \<and> source_type_of FilePdf = pdf"
  using source_type_closed [of example_env "text_form ''hello''"
          "\<lparr>id_src = ''uuid-1'', type_src = copiedText, title = ''Pasted Text 10:15:00 AM'',
            content = ''hello'', createdAt = 1000, metadata = NoMetadata\<rparr>"]
        source_type_closed [of example_env "file_form FilePdf (Some hello_txt)"
          "\<lparr>id_src = ''uuid-1'', type_src = pdf, title = ''hello.txt'',
            content = ''hello'', createdAt = 1000, metadata = FileMetadata ''hello.txt'' 5\<rparr>"]
  by (simp add: handleAddSource_def dispatch_def text_form_def file_form_def example_env_def
        hello_txt_def processFileWithGemini_def processFileWithGemini_try_def startsWith_def)

text \<open>The tag of a source made from pasted text is \<^verbatim>\<open>copiedText\<close>, which is not in the
  set \<^verbatim>\<open>{pastedText, website, youtube, pdf, audio, image}\<close>.\<close>

theorem pasted_text_type_counterexample:
  "produced_type (handleAddSource example_env (text_form ''hello'')) = Some ''copiedText''
   \<and> produced_type (handleAddSource example_env (text_form ''hello'')) \<noteq> Some ''pastedText''
   \<and> ''copiedText'' \<notin> set [''pastedText'', ''website'', ''youtube'', ''pdf'', ''audio'', ''image'']"
  by (simp add: handleAddSource_def dispatch_def text_form_def produced_type_def)

text \<open>
  C5. A website request whose input does not start with \<^verbatim>\<open>http\<close> fails with
  \<^verbatim>\<open>'Invalid URL'\<close>, and a YouTube request whose input contains neither
  \<^verbatim>\<open>youtube.com\<close> nor \<^verbatim>\<open>youtu.be\<close> fails with \<^verbatim>\<open>'Invalid YouTube URL'\<close>; both
  errors are of class \<open>InvalidInput\<close>, and the notebook stays as it is.
\<close>

theorem invalid_reference_rejected:
  "(activeModal f = Some ModalWebsite \<and> \<not> startsWith (inputValue f) ''http'' \<longrightarrow>
      handleAddSource w f = Inl (Error ''Invalid URL'')
      \<and> failure_class (handleAddSource w f) = Some InvalidInput
      \<and> add_to_notebook w f t nb = nb)
   \<and> (activeModal f = Some ModalYoutube \<and> \<not> includes_str (inputValue f) ''youtube.com''
        \<and> \<not> includes_str (inputValue f) ''youtu.be'' \<longrightarrow>
      handleAddSource w f = Inl (Error ''Invalid YouTube URL'')
      \<and> failure_class (handleAddSource w f) = Some InvalidInput
      \<and> add_to_notebook w f t nb = nb)"
  by (simp add: handleAddSource_def dispatch_def failure_class_def error_class_of_def
        add_to_notebook_def)

theorem invalid_reference_rejected_witness:
  "activeModal (url_form ModalWebsite ''ftp://example.org'') = Some ModalWebsite
   \<and> \<not> startsWith (inputValue (url_form ModalWebsite ''ftp://example.org'')) ''http''
   \<and> handleAddSource example_env (url_form ModalWebsite ''ftp://example.org'') = Inl (Error ''Invalid URL'')
   \<and> activeModal (url_form ModalYoutube ''https://vimeo.com/1'') = Some ModalYoutube
   \<and> \<not> includes_str (inputValue (url_form ModalYoutube ''https://vimeo.com/1'')) ''youtube.com''
   \<and> \<not> includes_str (inputValue (url_form ModalYoutube ''https://vimeo.com/1'')) ''youtu.be''
   \<and> handleAddSource example_env (url_form ModalYoutube ''https://vimeo.com/1'') =
       Inl (Error ''Invalid YouTube URL'')"
  using invalid_reference_rejected [of "url_form ModalWebsite ''ftp://example.org''" example_env 9 example_notebook]
        invalid_reference_rejected [of "url_form ModalYoutube ''https://vimeo.com/1''" example_env 9 example_notebook]
  by (simp add: url_form_def startsWith_def)

text \<open>
  C6. \<^verbatim>\<open>fetchWebsiteContent\<close> returns a string whatever the network does: the exception of
  a failed request or of reading the body is caught and gives the placeholder
  \<^verbatim>\<open>Could not fetch content from <url>.\<close>; a page whose stripped and trimmed text is
  empty gives \<^verbatim>\<open>Retrieved content from <url>\<close>; any other page gives its stripped and
  trimmed text. Both placeholders contain the URL, and the result is never empty.
\<close>

theorem fetchWebsiteContent_total:
  "(net url = Inl err \<longrightarrow>
      fetchWebsiteContent net url = ''Could not fetch content from '' @ url @ ''.'')
   \<and> (net url = Inr body \<and> trim (strip_markup body) = [] \<longrightarrow>
      fetchWebsiteContent net url = ''Retrieved content from '' @ url)
   \<and> (net url = Inr body \<and> trim (strip_markup body) \<noteq> [] \<longrightarrow>
      fetchWebsiteContent net url = trim (strip_markup body))
   \<and> ((\<exists>e. net url = Inl e) \<or> (\<exists>b. net url = Inr b \<and> trim (strip_markup b) = []) \<longrightarrow>
      includes_str (fetchWebsiteContent net url) url)
   \<and> fetchWebsiteContent net url \<noteq> []"
proof (intro conjI impI)
  assume "net url = Inl err"
  then show "fetchWebsiteContent net url = ''Could not fetch content from '' @ url @ ''.''"
    by (simp add: fetchWebsiteContent_def fetchWebsiteContent_try_def)
next
  assume "net url = Inr body \<and> trim (strip_markup body) = []"
  then show "fetchWebsiteContent net url = ''Retrieved content from '' @ url"
    by (simp add: fetchWebsiteContent_def fetchWebsiteContent_try_def)
next
  assume "net url = Inr body \<and> trim (strip_markup body) \<noteq> []"
  then show "fetchWebsiteContent net url = trim (strip_markup body)"
    by (simp add: fetchWebsiteContent_def fetchWebsiteContent_try_def)
next
  assume "(\<exists>e. net url = Inl e) \<or> (\<exists>b. net url = Inr b \<and> trim (strip_markup b) = [])"
  then show "includes_str (fetchWebsiteContent net url) url"
  proof
    assume "\<exists>e. net url = Inl e"
    then have "fetchWebsiteContent net url = ''Could not fetch content from '' @ url @ ''.''"
      by (auto simp: fetchWebsiteContent_def fetchWebsiteContent_try_def)
    then show ?thesis by (simp only: includes_str_middle)
  next
    assume "\<exists>b. net url = Inr b \<and> trim (strip_markup b) = []"
    then have "fetchWebsiteContent net url = ''Retrieved content from '' @ url @ []"
      by (auto simp: fetchWebsiteContent_def fetchWebsiteContent_try_def)
    then show ?thesis by (simp only: includes_str_middle)
  qed
next
  show "fetchWebsiteContent net url \<noteq> []"
    by (cases "net url") (simp_all add: fetchWebsiteContent_def fetchWebsiteContent_try_def Let_def)
qed

theorem fetchWebsiteContent_total_witness:
  "fetch_text example_env ''http://nonexistent.invalid/'' = Inl (Error ''Failed to fetch'')
   \<and> fetchWebsiteContent (fetch_text example_env) ''http://nonexistent.invalid/'' =
       ''Could not fetch content from http://nonexistent.invalid/.''
   \<and> trim (strip_markup ''<p> </p><SCRIPT>x</Script>'') = []
   \<and> fetchWebsiteContent (\<lambda>u. Inr ''<p> </p><SCRIPT>x</Script>'') ''http://a.example'' =
       ''Retrieved content from http://a.example''
   \<and> includes_str (fetchWebsiteContent (\<lambda>u. Inr ''<p> </p><SCRIPT>x</Script>'') ''http://a.example'')
        ''http://a.example''
   \<and> trim (strip_markup (''<p>'' @ no_break_space @ ''</p>'')) = []
   \<and> fetchWebsiteContent (\<lambda>u. Inr (''<p>'' @ no_break_space @ ''</p>'')) ''http://a.example'' =
       ''Retrieved content from http://a.example''
   \<and> trim (strip_markup ''<h1>Hi</h1> there<STYLE>p{}</style>'') = ''Hi  there''
   \<and> fetchWebsiteContent (\<lambda>u. Inr ''<h1>Hi</h1> there<STYLE>p{}</style>'') ''http://a.example'' =
       ''Hi  there''"
proof -
  have s1: "strip_markup ''<p> </p><SCRIPT>x</Script>'' = ''   ''"
    by (simp add: strip_markup_def replace_all_def block_match_def tag_match_def
          ascii_lower_def toLower_def)
  have s2: "strip_markup ''<h1>Hi</h1> there<STYLE>p{}</style>'' = '' Hi  there''"
    by (simp add: strip_markup_def replace_all_def block_match_def tag_match_def
          ascii_lower_def toLower_def)
  have s3: "strip_markup (''<p>'' @ no_break_space @ ''</p>'') = '' '' @ no_break_space @ '' ''"
    by (simp add: strip_markup_def replace_all_def block_match_def tag_match_def
          ascii_lower_def toLower_def no_break_space_def)
  have t1: "trim (strip_markup ''<p> </p><SCRIPT>x</Script>'') = []"
    unfolding s1 by (simp add: trim_def strip_start.simps white_space_def startsWith_def)
  have t2: "trim (strip_markup ''<h1>Hi</h1> there<STYLE>p{}</style>'') = ''Hi  there''"
    unfolding s2 by (simp add: trim_def strip_start.simps white_space_def startsWith_def)
  have t3: "trim (strip_markup (''<p>'' @ no_break_space @ ''</p>'')) = []"
    unfolding s3
    by (simp add: trim_def strip_start.simps white_space_def startsWith_def no_break_space_def)
  show ?thesis
    using fetchWebsiteContent_total [of "fetch_text example_env" "''http://nonexistent.invalid/''"
            "Error ''Failed to fetch''"]
          fetchWebsiteContent_total [of "\<lambda>u. Inr ''<p> </p><SCRIPT>x</Script>''" "''http://a.example''"
            _ "''<p> </p><SCRIPT>x</Script>''"]
          fetchWebsiteContent_total [of "\<lambda>u. Inr (''<p>'' @ no_break_space @ ''</p>'')"
            "''http://a.example''" _ "''<p>'' @ no_break_space @ ''</p>''"]
          fetchWebsiteContent_total [of "\<lambda>u. Inr ''<h1>Hi</h1> there<STYLE>p{}</style>''"
            "''http://a.example''" _ "''<h1>Hi</h1> there<STYLE>p{}</style>''"]
          t1 t2 t3
    by (simp add: example_env_def startsWith_def)
qed

text \<open>
  C7. \<^verbatim>\<open>processFileWithGemini\<close> on a MIME type that starts with \<^verbatim>\<open>text/\<close> returns the
  decoded text of the file as it is; on any other MIME type it returns the stub sentence,
  which contains the name of the file and the MIME type. It returns a string in every
  case: a file whose text cannot be read gives a placeholder with the name of the file.
\<close>

theorem processFileWithGemini_total:
  "(startsWith mimeType ''text/'' \<and> text_file file = Inr t \<longrightarrow>
      processFileWithGemini file mimeType = t)
   \<and> (startsWith mimeType ''text/'' \<and> text_file file = Inl err \<longrightarrow>
      processFileWithGemini file mimeType = ''Could not process file '' @ name file @ ''.'')
   \<and> (\<not> startsWith mimeType ''text/'' \<longrightarrow>
      processFileWithGemini file mimeType =
        ''Uploaded file '' @ name file @ '' of type '' @ mimeType
        @ '' has been received. Text extraction requires server'' @ nb_hyphen @ ''side processing.''
      \<and> includes_str (processFileWithGemini file mimeType) (name file)
      \<and> includes_str (processFileWithGemini file mimeType) mimeType)"
proof (intro conjI impI)
  assume "startsWith mimeType ''text/'' \<and> text_file file = Inr t"
  then show "processFileWithGemini file mimeType = t"
    by (simp add: processFileWithGemini_def processFileWithGemini_try_def)
next
  assume "startsWith mimeType ''text/'' \<and> text_file file = Inl err"
  then show "processFileWithGemini file mimeType = ''Could not process file '' @ name file @ ''.''"
    by (simp add: processFileWithGemini_def processFileWithGemini_try_def)
next
  assume a: "\<not> startsWith mimeType ''text/''"
  then show e: "processFileWithGemini file mimeType =
        ''Uploaded file '' @ name file @ '' of type '' @ mimeType
        @ '' has been received. Text extraction requires server'' @ nb_hyphen @ ''side processing.''"
    by (simp add: processFileWithGemini_def processFileWithGemini_try_def)
  show "includes_str (processFileWithGemini file mimeType) (name file)"
    unfolding e by (rule includes_str_middle)
  have "processFileWithGemini file mimeType =
        (''Uploaded file '' @ name file @ '' of type '') @ mimeType
        @ ('' has been received. Text extraction requires server'' @ nb_hyphen @ ''side processing.'')"
    unfolding e by simp
  then show "includes_str (processFileWithGemini file mimeType) mimeType"
    by (simp only: includes_str_middle)
qed

theorem processFileWithGemini_total_witness:
  "startsWith ''text/plain'' ''text/'' \<and> text_file hello_txt = Inr ''hello''
   \<and> processFileWithGemini hello_txt ''text/plain'' = ''hello''
   \<and> \<not> startsWith ''image/png'' ''text/''
   \<and> includes_str (processFileWithGemini photo_png ''image/png'') ''photo.png''
   \<and> includes_str (processFileWithGemini photo_png ''image/png'') ''image/png''
   \<and> processFileWithGemini (photo_png\<lparr>type_file := ''text/csv''\<rparr>) ''text/csv'' =
        ''Could not process file photo.png.''"
  using processFileWithGemini_total [of "''text/plain''" hello_txt "''hello''"]
        processFileWithGemini_total [of "''image/png''" photo_png]
        processFileWithGemini_total [of "''text/csv''" "photo_png\<lparr>type_file := ''text/csv''\<rparr>" _
          "Error ''NotReadableError''"]
  by (simp add: startsWith_def hello_txt_def photo_png_def)






text \<open>
  C10. \<^verbatim>\<open>deleteSource\<close> sets \<^verbatim>\<open>updatedAt\<close> to the current time in every case; the
  sources it keeps are those whose id differs from the given one, in their order and
  unchanged; when no source has that id the list of sources is the same as before.
\<close>

theorem deleteSource_frame:
  "updatedAt (deleteSource t nb i) = t
   \<and> sources (deleteSource t nb i) = filter (\<lambda>s. id_src s \<noteq> i) (sources nb)
   \<and> (i \<notin> set (map id_src (sources nb)) \<longrightarrow> sources (deleteSource t nb i) = sources nb)
   \<and> id_nb (deleteSource t nb i) = id_nb nb \<and> title_nb (deleteSource t nb i) = title_nb nb"
  unfolding deleteSource_def by (auto simp: filter_id_conv)

theorem deleteSource_frame_witness:
  "''zz'' \<notin> set (map id_src (sources example_notebook))
   \<and> updatedAt (deleteSource 9 example_notebook ''zz'') = 9
   \<and> sources (deleteSource 9 example_notebook ''zz'') = [cats, dogs, birds]
   \<and> updatedAt (deleteSource 9 example_notebook ''s2'') = 9
   \<and> sources (deleteSource 9 example_notebook ''s2'') = [cats, birds]"
  using deleteSource_frame [of 9 example_notebook "''zz''"]
        deleteSource_frame [of 9 example_notebook "''s2''"]
  by (simp add: example_notebook_def cats_def dogs_def birds_def)

end
